theory Spec2Isabelle
  imports Complex_Main
begin

section \<open>Common conventions\<close>

text \<open>
  A Python \<open>str\<close> is a \<open>string\<close>, one \<open>char\<close> per code point, so that \<open>length\<close> counts
  what \<open>len\<close> counts. A reading of \<open>time.time()\<close> is a \<open>real\<close>; every function that
  reads the clock takes the reading as its argument \<open>now\<close>. Mutation of an object is
  explicit state passing: the function returns the new state beside its result.
  An exception is a value of \<open>exn\<close>, and a function that may raise returns \<open>exn + 'a\<close>.
\<close>

datatype exn =
    ValidationError
  | KeyError string
  | TypeError
  | ZeroDivisionError
  | Exception string

text \<open>
  An optional parameter with a default is either left out at the call or given. A value of
  type \<open>Optional[str]\<close> is a \<open>string option\<close>, \<open>None\<close> being Python's \<open>None\<close>.
\<close>

datatype 'a arg = Omitted | Given 'a

text \<open>What an f-string prints for a value of type \<open>Optional[str]\<close>.\<close>

fun format_str :: "string option \<Rightarrow> string" where
  "format_str None = ''None''"
| "format_str (Some s) = s"

section \<open>utils/cache.py: SimpleCache\<close>

record 'v cache_item =
  item_value :: 'v
  item_expiry :: real

record 'v SimpleCache =
  cache :: "string \<rightharpoonup> 'v cache_item"
  default_ttl :: int

definition SimpleCache_init :: "int arg \<Rightarrow> 'v SimpleCache" where
  "SimpleCache_init ttl =
     \<lparr>cache = Map.empty, default_ttl = (case ttl of Omitted \<Rightarrow> 3600 | Given n \<Rightarrow> n)\<rparr>"

text \<open>
  \<open>_generate_key(self, query, selected_text="")\<close>. The library function
  \<open>hashlib.md5(s.encode()).hexdigest()\<close> is the parameter \<open>digest\<close>: every statement below
  holds for any function from strings to strings in its place.
\<close>

definition cache_input :: "string \<Rightarrow> string option arg \<Rightarrow> string" where
  "cache_input query selected_text =
     query @ ''::'' @ format_str (case selected_text of Omitted \<Rightarrow> Some '''' | Given v \<Rightarrow> v)"

definition generate_key :: "(string \<Rightarrow> string) \<Rightarrow> string \<Rightarrow> string option arg \<Rightarrow> string" where
  "generate_key digest query selected_text = digest (cache_input query selected_text)"

text \<open>\<open>get(self, query, selected_text="")\<close>: the result \<open>None\<close> is Python's \<open>None\<close>.\<close>

definition cache_get ::
  "(string \<Rightarrow> string) \<Rightarrow> real \<Rightarrow> 'v SimpleCache \<Rightarrow> string \<Rightarrow> string option arg
     \<Rightarrow> 'v option \<times> 'v SimpleCache" where
  "cache_get digest now c query selected_text =
     (let key = generate_key digest query selected_text in
      case cache c key of
        Some cached_item \<Rightarrow>
          if now > item_expiry cached_item
          then (None, c\<lparr>cache := (cache c)(key := None)\<rparr>)
          else (Some (item_value cached_item), c)
      | None \<Rightarrow> (None, c))"

text \<open>\<open>set(self, query, value, selected_text="", ttl=None)\<close>.\<close>

definition cache_set ::
  "(string \<Rightarrow> string) \<Rightarrow> real \<Rightarrow> 'v SimpleCache \<Rightarrow> string \<Rightarrow> 'v \<Rightarrow> string option arg
     \<Rightarrow> int option \<Rightarrow> 'v SimpleCache" where
  "cache_set digest now c query v selected_text ttl =
     (let key = generate_key digest query selected_text;
          ttl1 = (case ttl of None \<Rightarrow> default_ttl c | Some n \<Rightarrow> n);
          expiry_time = now + of_int ttl1
      in c\<lparr>cache := (cache c)(key \<mapsto> \<lparr>item_value = v, item_expiry = expiry_time\<rparr>)\<rparr>)"

text \<open>\<open>delete(self, query, selected_text="")\<close>.\<close>

definition cache_delete ::
  "(string \<Rightarrow> string) \<Rightarrow> 'v SimpleCache \<Rightarrow> string \<Rightarrow> string option arg
     \<Rightarrow> bool \<times> 'v SimpleCache" where
  "cache_delete digest c query selected_text =
     (let key = generate_key digest query selected_text in
      case cache c key of
        Some _ \<Rightarrow> (True, c\<lparr>cache := (cache c)(key := None)\<rparr>)
      | None \<Rightarrow> (False, c))"

section \<open>utils/rate\_limit.py: RateLimiter\<close>

text \<open>
  \<open>requests\<close> is a \<open>defaultdict(list)\<close>: reading a key that is not there gives the empty
  list. The lock makes each call atomic, so a call is one step on the state.
\<close>

record RateLimiter =
  requests_per_minute :: int
  requests :: "string \<rightharpoonup> real list"

definition RateLimiter_init :: "int \<Rightarrow> RateLimiter" where
  "RateLimiter_init n = \<lparr>requests_per_minute = n, requests = Map.empty\<rparr>"

definition requests_of :: "RateLimiter \<Rightarrow> string \<Rightarrow> real list" where
  "requests_of r api_key = (case requests r api_key of None \<Rightarrow> [] | Some ts \<Rightarrow> ts)"

definition is_allowed :: "real \<Rightarrow> RateLimiter \<Rightarrow> string \<Rightarrow> bool \<times> RateLimiter" where
  "is_allowed current_time r api_key =
     (let kept = filter (\<lambda>timestamp. current_time - timestamp < 60) (requests_of r api_key);
          r1 = r\<lparr>requests := (requests r)(api_key \<mapsto> kept)\<rparr>
      in if int (length kept) < requests_per_minute r1
         then (True, r1\<lparr>requests := (requests r1)(api_key \<mapsto> kept @ [current_time])\<rparr>)
         else (False, r1))"

text \<open>Successive calls for one identity, at the given clock readings, in order.\<close>

fun is_allowed_calls :: "RateLimiter \<Rightarrow> string \<Rightarrow> real list \<Rightarrow> bool list \<times> RateLimiter" where
  "is_allowed_calls r api_key [] = ([], r)"
| "is_allowed_calls r api_key (t # ts) =
     (let (b, r1) = is_allowed t r api_key;
          (bs, r2) = is_allowed_calls r1 api_key ts
      in (b # bs, r2))"

text \<open>
  The readings of a list lie in one window: each is less than 60 seconds after every
  reading before it in the list.
\<close>

fun in_window :: "real list \<Rightarrow> bool" where
  "in_window [] = True"
| "in_window (t # ts) = (list_all (\<lambda>u. u - t < 60) ts \<and> in_window ts)"

section \<open>models/query.py: the pydantic models\<close>

text \<open>
  A model is a record and a validity predicate; building an instance checks the predicate
  and raises \<open>ValidationError\<close> where it fails. A \<open>dict\<close> with string keys is an
  association list; \<open>MErr e\<close> is the string \<open>str(e)\<close> of an exception, whose text the
  library produces.
\<close>

datatype meta_value = MStr string | MNum real | MErr exn

type_synonym pydict = "(string \<times> meta_value) list"

text \<open>\<open>s.startswith(p)\<close>.\<close>

definition startswith :: "string \<Rightarrow> string \<Rightarrow> bool" where
  "startswith s p = (take (length p) s = p)"

text \<open>
  The pattern \<open>^https?://.+$|^/.*$\<close> of \<open>Citation.url\<close>: \<open>.\<close> is any character but
  a line feed, \<open>$\<close> is the end of the text.
\<close>

definition no_line_feed :: "string \<Rightarrow> bool" where
  "no_line_feed s = list_all (\<lambda>c. c \<noteq> CHR 0x0A) s"

definition url_pattern :: "string \<Rightarrow> bool" where
  "url_pattern u =
     ((startswith u ''http://'' \<and> drop 7 u \<noteq> [] \<and> no_line_feed (drop 7 u))
    \<or> (startswith u ''https://'' \<and> drop 8 u \<noteq> [] \<and> no_line_feed (drop 8 u))
    \<or> (startswith u ''/'' \<and> no_line_feed (drop 1 u)))"

record Citation =
  document_id :: string
  title :: string
  url :: string
  text_snippet :: string
  relevance_score :: real

definition Citation_valid :: "Citation \<Rightarrow> bool" where
  "Citation_valid c =
     (url_pattern (url c)
    \<and> 10 \<le> length (text_snippet c) \<and> length (text_snippet c) \<le> 1000
    \<and> 0 \<le> relevance_score c \<and> relevance_score c \<le> 1)"

definition Citation_init ::
  "string \<Rightarrow> string \<Rightarrow> string \<Rightarrow> string \<Rightarrow> real \<Rightarrow> exn + Citation" where
  "Citation_init did ti u sn rs =
     (let c = \<lparr>document_id = did, title = ti, url = u, text_snippet = sn, relevance_score = rs\<rparr>
      in if Citation_valid c then Inr c else Inl ValidationError)"

record QueryRequest =
  query :: string
  selected_text :: "string option"
  session_id :: "string option"
  request_metadata :: "pydict option"

definition QueryRequest_valid :: "QueryRequest \<Rightarrow> bool" where
  "QueryRequest_valid r =
     (1 \<le> length (query r) \<and> length (query r) \<le> 2000
    \<and> (case selected_text r of None \<Rightarrow> True | Some s \<Rightarrow> length s \<le> 5000))"

text \<open>A field that is left out takes its default: \<open>""\<close> for \<open>selected_text\<close>.\<close>

definition QueryRequest_init ::
  "string \<Rightarrow> string option arg \<Rightarrow> string option arg \<Rightarrow> pydict option arg
     \<Rightarrow> exn + QueryRequest" where
  "QueryRequest_init q st sid md =
     (let r = \<lparr>query = q,
               selected_text = (case st of Omitted \<Rightarrow> Some '''' | Given v \<Rightarrow> v),
               session_id = (case sid of Omitted \<Rightarrow> None | Given v \<Rightarrow> v),
               request_metadata = (case md of Omitted \<Rightarrow> None | Given v \<Rightarrow> v)\<rparr>
      in if QueryRequest_valid r then Inr r else Inl ValidationError)"

record QueryResponse =
  answer :: string
  citations :: "Citation list"
  query_id :: string
  timestamp :: string
  metadata :: "pydict option"

definition QueryResponse_valid :: "QueryResponse \<Rightarrow> bool" where
  "QueryResponse_valid r =
     (1 \<le> length (answer r) \<and> length (answer r) \<le> 10000
    \<and> length (citations r) \<le> 20 \<and> list_all Citation_valid (citations r))"

text \<open>
  \<open>QueryResponse(answer=..., citations=..., query_id=..., timestamp=..., metadata=...)\<close>.
  Citations given as dictionaries are validated here; citations given as instances were
  validated when they were built, so the check is the same on both.
\<close>

definition QueryResponse_init ::
  "string \<Rightarrow> Citation list \<Rightarrow> string \<Rightarrow> string \<Rightarrow> pydict option arg
     \<Rightarrow> exn + QueryResponse" where
  "QueryResponse_init a cs qid ts md =
     (let r = \<lparr>answer = a, citations = cs, query_id = qid, timestamp = ts,
               metadata = (case md of Omitted \<Rightarrow> None | Given v \<Rightarrow> v)\<rparr>
      in if QueryResponse_valid r then Inr r else Inl ValidationError)"

text \<open>
  \<open>response.model_dump()\<close> is the dictionary of the five fields; the record stands for
  it, so a cached payload is a record whose fields need not be valid.
\<close>

definition model_dump :: "QueryResponse \<Rightarrow> QueryResponse" where
  "model_dump r = r"

section \<open>utils/response\_quality.py: ResponseQualityMetrics\<close>

text \<open>The dictionary \<open>metrics\<close> and the list \<open>response_times\<close>, in one record.\<close>

record ResponseQualityMetrics =
  total_queries :: int
  successful_queries :: int
  failed_queries :: int
  avg_response_time :: real
  total_response_time :: real
  avg_citations_per_response :: real
  total_citations :: int
  response_times :: "real list"

definition ResponseQualityMetrics_init :: ResponseQualityMetrics where
  "ResponseQualityMetrics_init =
     \<lparr>total_queries = 0, successful_queries = 0, failed_queries = 0,
      avg_response_time = 0, total_response_time = 0,
      avg_citations_per_response = 0, total_citations = 0, response_times = []\<rparr>"

text \<open>Python's \<open>a / b\<close> raises where \<open>b\<close> is zero.\<close>

definition truediv :: "real \<Rightarrow> real \<Rightarrow> exn + real" where
  "truediv a b = (if b = 0 then Inl ZeroDivisionError else Inr (a / b))"

text \<open>
  \<open>log_query_end(self, start_time, success, response=None)\<close>; \<open>now\<close> is the reading
  of \<open>time.time()\<close> taken as \<open>end_time\<close>. An instance of a pydantic model is truthy, so
  \<open>if response\<close> asks whether a response was given.
\<close>

definition log_query_end ::
  "real \<Rightarrow> ResponseQualityMetrics \<Rightarrow> real \<Rightarrow> bool \<Rightarrow> QueryResponse option
     \<Rightarrow> exn + ResponseQualityMetrics" where
  "log_query_end now m start_time success response =
     (let end_time = now;
          response_time = end_time - start_time;
          m1 = m\<lparr>total_queries := total_queries m + 1,
                 response_times := response_times m @ [response_time],
                 total_response_time := total_response_time m + response_time\<rparr>;
          m2 = (if success
                then (let m3 = m1\<lparr>successful_queries := successful_queries m1 + 1\<rparr> in
                      case response of
                        Some r \<Rightarrow> m3\<lparr>total_citations :=
                                       total_citations m3 + int (length (citations r))\<rparr>
                      | None \<Rightarrow> m3)
                else m1\<lparr>failed_queries := failed_queries m1 + 1\<rparr>)
      in case (if successful_queries m2 > 0
               then truediv (total_response_time m2) (of_int (successful_queries m2))
               else Inr 0) of
           Inl e \<Rightarrow> Inl e
         | Inr a \<Rightarrow>
             (case (if successful_queries m2 > 0
                    then truediv (of_int (total_citations m2)) (of_int (successful_queries m2))
                    else Inr 0) of
                Inl e \<Rightarrow> Inl e
              | Inr b \<Rightarrow> Inr (m2\<lparr>avg_response_time := a, avg_citations_per_response := b\<rparr>)))"

text \<open>
  Successive calls of \<open>log_query_end\<close>, each given as
  \<open>(start_time, now, success, response)\<close>; the first exception ends the run.
\<close>

fun log_query_end_calls ::
  "ResponseQualityMetrics \<Rightarrow> (real \<times> real \<times> bool \<times> QueryResponse option) list
     \<Rightarrow> exn + ResponseQualityMetrics" where
  "log_query_end_calls m [] = Inr m"
| "log_query_end_calls m ((start_time, now, success, response) # calls) =
     (case log_query_end now m start_time success response of
        Inl e \<Rightarrow> Inl e
      | Inr m1 \<Rightarrow> log_query_end_calls m1 calls)"

text \<open>The duration and the citation count that one call contributes.\<close>

definition call_duration :: "real \<times> real \<times> bool \<times> QueryResponse option \<Rightarrow> real" where
  "call_duration call = (case call of (start_time, now, success, response) \<Rightarrow> now - start_time)"

definition call_citations :: "real \<times> real \<times> bool \<times> QueryResponse option \<Rightarrow> int" where
  "call_citations call =
     (case call of (start_time, now, success, response) \<Rightarrow>
        (case response of None \<Rightarrow> 0 | Some r \<Rightarrow> int (length (citations r))))"

definition call_success :: "real \<times> real \<times> bool \<times> QueryResponse option \<Rightarrow> bool" where
  "call_success call = (case call of (start_time, now, success, response) \<Rightarrow> success)"

text \<open>\<open>s.strip()\<close>: the characters below 256 for which \<open>isspace\<close> holds are removed at both ends.\<close>

definition isspace :: "char \<Rightarrow> bool" where
  "isspace c = (c \<in> set [CHR 0x09, CHR 0x0A, CHR 0x0B, CHR 0x0C, CHR 0x0D, CHR 0x1C,
                          CHR 0x1D, CHR 0x1E, CHR 0x1F, CHR 0x20, CHR 0x85, CHR 0xA0])"

definition strip :: "string \<Rightarrow> string" where
  "strip s = rev (dropWhile isspace (rev (dropWhile isspace s)))"

section \<open>services/rag\_service.py: RAGService\<close>

text \<open>
  A retrieved document is a dictionary; the record keeps the five keys the orchestrator
  reads, each absent (\<open>None\<close>) or present with a value of the type the \<open>Citation\<close> field
  declares. The dictionary the generation collaborator returns keeps the two keys the
  orchestrator reads.
\<close>

record doc =
  doc_document_id :: "string option"
  doc_title :: "string option"
  doc_url :: "string option"
  doc_text_snippet :: "string option"
  doc_relevance_score :: "real option"

record agent_response =
  agent_answer :: "string option"
  agent_metadata :: "pydict option arg"

text \<open>
  The collaborators are parameters: the two embedding clients (each may be missing), the
  vector search and the answer generation. A call returns a value or raises. An embedding
  client returns what \<open>response.embeddings[0]\<close> or \<open>response.data[0].embedding\<close> is: a
  vector or \<open>None\<close>.
\<close>

record collaborators =
  cohere_client :: "(string \<Rightarrow> exn + real list option) option"
  openai_client :: "(string \<Rightarrow> exn + real list option) option"
  search_documents :: "real list \<Rightarrow> nat \<Rightarrow> exn + doc list"
  generate_response :: "string \<Rightarrow> doc list \<Rightarrow> string option \<Rightarrow> exn + agent_response"

text \<open>The calls made to the search and generation collaborators are effects: they are logged.\<close>

datatype call =
    SearchCall "real list" nat
  | GenerateCall string "doc list" "string option"

text \<open>
  The readings one request takes from its environment, one per call site: the clock, the
  random identifier and the UTC date in ISO format, in the \<open>try\<close> block and in the handler.
\<close>

record env =
  time_start :: real
  time_get :: real
  time_set :: real
  time_end :: real
  time_end_except :: real
  uuid4 :: string
  uuid4_except :: string
  utcnow :: string
  utcnow_except :: string

record service =
  the_cache :: "QueryResponse SimpleCache"
  the_metrics :: ResponseQualityMetrics
  calls :: "call list"

definition generate_embedding :: "collaborators \<Rightarrow> string \<Rightarrow> real list option" where
  "generate_embedding co text =
     (case (case cohere_client co of
              Some cohere \<Rightarrow> (case cohere text of Inr v \<Rightarrow> Some v | Inl e \<Rightarrow> None)
            | None \<Rightarrow> None) of
        Some v \<Rightarrow> v
      | None \<Rightarrow>
          (case (case openai_client co of
                   Some openai \<Rightarrow> (case openai text of Inr v \<Rightarrow> Some v | Inl e \<Rightarrow> None)
                 | None \<Rightarrow> None) of
             Some v \<Rightarrow> v
           | None \<Rightarrow> Some (replicate 1024 0)))"

definition validate_citation_links :: "Citation list \<Rightarrow> Citation list" where
  "validate_citation_links cs =
     filter (\<lambda>citation. url citation \<noteq> [] \<and>
               (startswith (url citation) ''http'' \<or> startswith (url citation) ''/'')) cs"

definition enhance_citation_relevance :: "Citation list \<Rightarrow> string \<Rightarrow> Citation list" where
  "enhance_citation_relevance cs q = cs"

text \<open>\<open>d.get(key, default)\<close> on a key that is absent or present.\<close>

definition get_default :: "'a option \<Rightarrow> 'a \<Rightarrow> 'a" where
  "get_default v d = (case v of None \<Rightarrow> d | Some x \<Rightarrow> x)"

text \<open>The citation built from one retrieved document.\<close>

definition doc_citation :: "doc \<Rightarrow> exn + Citation" where
  "doc_citation d =
     Citation_init (get_default (doc_document_id d) '''')
                   (get_default (doc_title d) '''')
                   (get_default (doc_url d) '''')
                   (take 500 (get_default (doc_text_snippet d) ''''))
                   (get_default (doc_relevance_score d) 0)"

text \<open>The loop over the retrieved documents: the first exception ends it.\<close>

fun raw_citations :: "doc list \<Rightarrow> exn + Citation list" where
  "raw_citations [] = Inr []"
| "raw_citations (d # ds) =
     (case doc_citation d of
        Inl e \<Rightarrow> Inl e
      | Inr citation \<Rightarrow>
          (case raw_citations ds of Inl e \<Rightarrow> Inl e | Inr cs \<Rightarrow> Inr (citation # cs)))"

text \<open>\<open>ResponseQualityMetrics.validate_response_accuracy\<close>; its result is only logged.\<close>

record validation_result =
  is_accurate :: bool
  confidence_score :: real
  citations_validated :: bool
  sources_used :: "string set"
  validation_notes :: "string list"

definition validate_response_accuracy :: "QueryResponse \<Rightarrow> doc list \<Rightarrow> validation_result" where
  "validate_response_accuracy response source_context =
     (let v0 = \<lparr>is_accurate = True, confidence_score = 1, citations_validated = True,
                sources_used = {}, validation_notes = []\<rparr>;
          cited_sources = set (map document_id (citations response));
          available_sources =
            set (filter (\<lambda>i. i \<noteq> []) (map (\<lambda>d. get_default (doc_document_id d) []) source_context));
          v1 = (if citations response \<noteq> [] \<and> source_context \<noteq> []
                then (if cited_sources \<subseteq> available_sources
                      then v0\<lparr>sources_used := cited_sources \<inter> available_sources\<rparr>
                      else v0\<lparr>is_accurate := False, confidence_score := 1 / 2,
                              validation_notes := validation_notes v0 @
                                [''Some citations reference sources not in context'']\<rparr>)
                else v0)
      in if citations response \<noteq> [] \<and> strip (answer response) = []
         then v1\<lparr>is_accurate := False, confidence_score := 0,
                 validation_notes := validation_notes v1 @
                   [''Response has citations but no content'']\<rparr>
         else v1)"

definition no_documents_answer :: string where
  "no_documents_answer =
     ''I couldn'' @ [CHR 0x27] @ ''t find any relevant documents to answer your question.''"

definition error_answer :: string where
  "error_answer = ''Sorry, I encountered an error while processing your request.''"

text \<open>
  The branch of a cache hit. The cached dictionary is the one stored in the cache, so
  writing the new identifier and timestamp into it changes the stored payload too.
\<close>

definition restamp ::
  "(string \<Rightarrow> string) \<Rightarrow> QueryResponse SimpleCache \<Rightarrow> string \<Rightarrow> string option
     \<Rightarrow> string \<Rightarrow> string \<Rightarrow> QueryResponse SimpleCache" where
  "restamp digest c q st qid ts =
     (let key = generate_key digest q (Given st) in
      case cache c key of
        None \<Rightarrow> c
      | Some item \<Rightarrow>
          c\<lparr>cache := (cache c)(key \<mapsto>
               item\<lparr>item_value := (item_value item)\<lparr>query_id := qid, timestamp := ts\<rparr>\<rparr>)\<rparr>)"

definition cache_hit ::
  "(string \<Rightarrow> string) \<Rightarrow> env \<Rightarrow> service \<Rightarrow> QueryRequest \<Rightarrow> real \<Rightarrow> QueryResponse
     \<Rightarrow> (exn + QueryResponse) \<times> service" where
  "cache_hit digest ev s query_request start_time cached_response =
     (let cached = cached_response\<lparr>query_id := uuid4 ev, timestamp := utcnow ev @ ''Z''\<rparr>;
          s1 = s\<lparr>the_cache := restamp digest (the_cache s) (query query_request)
                     (selected_text query_request) (uuid4 ev) (utcnow ev @ ''Z'')\<rparr>
      in case QueryResponse_init (answer cached) (citations cached) (query_id cached)
                (timestamp cached) (Given (metadata cached)) of
           Inl e \<Rightarrow> (Inl e, s1)
         | Inr response \<Rightarrow>
             (case log_query_end (time_end ev) (the_metrics s1) start_time True (Some response) of
                Inl e \<Rightarrow> (Inl e, s1)
              | Inr m \<Rightarrow> (Inr response, s1\<lparr>the_metrics := m\<rparr>)))"

text \<open>The branch where retrieval gave no document.\<close>

definition no_documents ::
  "env \<Rightarrow> service \<Rightarrow> real \<Rightarrow> (exn + QueryResponse) \<times> service" where
  "no_documents ev s start_time =
     (case QueryResponse_init no_documents_answer [] (uuid4 ev) (utcnow ev @ ''Z'') Omitted of
        Inl e \<Rightarrow> (Inl e, s)
      | Inr response \<Rightarrow>
          (case log_query_end (time_end ev) (the_metrics s) start_time False (Some response) of
             Inl e \<Rightarrow> (Inl e, s)
           | Inr m \<Rightarrow> (Inr response, s\<lparr>the_metrics := m\<rparr>)))"

text \<open>Generation, citation assembly and post-processing, response, cache write, metrics.\<close>

definition with_documents ::
  "(string \<Rightarrow> string) \<Rightarrow> env \<Rightarrow> collaborators \<Rightarrow> service \<Rightarrow> QueryRequest \<Rightarrow> real
     \<Rightarrow> doc list \<Rightarrow> (exn + QueryResponse) \<times> service" where
  "with_documents digest ev co s query_request start_time relevant_docs =
     (let s1 = s\<lparr>calls := calls s @
                  [GenerateCall (query query_request) relevant_docs (selected_text query_request)]\<rparr>
      in case generate_response co (query query_request) relevant_docs
                (selected_text query_request) of
           Inl e \<Rightarrow> (Inl e, s1)
         | Inr agent \<Rightarrow>
             (case raw_citations relevant_docs of
                Inl e \<Rightarrow> (Inl e, s1)
              | Inr raw \<Rightarrow>
                  (let enhanced_citations = enhance_citation_relevance raw (query query_request);
                       validated_citations = validate_citation_links enhanced_citations
                   in case agent_answer agent of
                        None \<Rightarrow> (Inl (KeyError ''answer''), s1)
                      | Some a \<Rightarrow>
                          (case QueryResponse_init a validated_citations (uuid4 ev)
                                  (utcnow ev @ ''Z'')
                                  (case agent_metadata agent of
                                     Omitted \<Rightarrow> Given (Some [])
                                   | Given v \<Rightarrow> Given v) of
                             Inl e \<Rightarrow> (Inl e, s1)
                           | Inr response \<Rightarrow>
                               (let validation = validate_response_accuracy response relevant_docs;
                                    s2 = (if answer response \<noteq> [] \<and>
                                             length (strip (answer response)) > 0
                                          then s1\<lparr>the_cache :=
                                                 cache_set digest (time_set ev) (the_cache s1)
                                                   (query query_request) (model_dump response)
                                                   (Given (selected_text query_request))
                                                   (Some 7200)\<rparr>
                                          else s1)
                                in case log_query_end (time_end ev) (the_metrics s2) start_time
                                          True (Some response) of
                                     Inl e \<Rightarrow> (Inl e, s2)
                                   | Inr m \<Rightarrow> (Inr response, s2\<lparr>the_metrics := m\<rparr>))))))"

text \<open>The text that is embedded: the selected text, where there is one, then the query.\<close>

definition query_text :: "QueryRequest \<Rightarrow> string" where
  "query_text query_request =
     (if get_default (selected_text query_request) [] \<noteq> []
      then get_default (selected_text query_request) [] @ '' '' @ query query_request
      else query query_request)"

text \<open>The branch of a cache miss: embedding, then retrieval.\<close>

definition cache_miss ::
  "(string \<Rightarrow> string) \<Rightarrow> env \<Rightarrow> collaborators \<Rightarrow> service \<Rightarrow> QueryRequest \<Rightarrow> real
     \<Rightarrow> (exn + QueryResponse) \<times> service" where
  "cache_miss digest ev co s query_request start_time =
     (let query_embedding = generate_embedding co (query_text query_request)
      in if query_embedding = None \<or> query_embedding = Some []
         then (Inl (Exception ''Failed to generate query embedding''), s)
         else (let s1 = s\<lparr>calls := calls s @ [SearchCall (get_default query_embedding []) 5]\<rparr>
               in case search_documents co (get_default query_embedding []) 5 of
                    Inl e \<Rightarrow> (Inl e, s1)
                  | Inr relevant_docs \<Rightarrow>
                      if relevant_docs = []
                      then no_documents ev s1 start_time
                      else with_documents digest ev co s1 query_request start_time relevant_docs))"

text \<open>The \<open>try\<close> block of \<open>query_documentation\<close>.\<close>

definition query_documentation_try ::
  "(string \<Rightarrow> string) \<Rightarrow> env \<Rightarrow> collaborators \<Rightarrow> service \<Rightarrow> QueryRequest \<Rightarrow> real
     \<Rightarrow> (exn + QueryResponse) \<times> service" where
  "query_documentation_try digest ev co s query_request start_time =
     (case cache_get digest (time_get ev) (the_cache s) (query query_request)
             (Given (selected_text query_request)) of
        (cached_response, c1) \<Rightarrow>
          (case cached_response of
             Some cached \<Rightarrow>
               cache_hit digest ev (s\<lparr>the_cache := c1\<rparr>) query_request start_time cached
           | None \<Rightarrow>
               cache_miss digest ev co (s\<lparr>the_cache := c1\<rparr>) query_request start_time))"

text \<open>
  \<open>query_documentation(self, query_request)\<close>: the \<open>try\<close> block and the handler
  \<open>except Exception\<close>. A result \<open>Inl e\<close> is an exception that leaves the function.
\<close>

definition query_documentation ::
  "(string \<Rightarrow> string) \<Rightarrow> env \<Rightarrow> collaborators \<Rightarrow> service \<Rightarrow> QueryRequest
     \<Rightarrow> (exn + QueryResponse) \<times> service" where
  "query_documentation digest ev co s query_request =
     (let start_time = time_start ev in
      case query_documentation_try digest ev co s query_request start_time of
        (Inr response, s1) \<Rightarrow> (Inr response, s1)
      | (Inl e, s1) \<Rightarrow>
          (case QueryResponse_init error_answer [] (uuid4_except ev) (utcnow_except ev @ ''Z'')
                  (Given (Some [(''error'', MErr e)])) of
             Inl e1 \<Rightarrow> (Inl e1, s1)
           | Inr error_response \<Rightarrow>
               (case log_query_end (time_end_except ev) (the_metrics s1) start_time False
                       (Some error_response) of
                  Inl e1 \<Rightarrow> (Inl e1, s1)
                | Inr m \<Rightarrow> (Inr error_response, s1\<lparr>the_metrics := m\<rparr>))))"

section \<open>Example inputs\<close>

text \<open>
  A request against an empty cache and fresh metrics, a retrieved document with every
  field but the identifier and the URL fixed, and collaborators: an optional Cohere client,
  no OpenAI client, a search that returns the given documents and a generation with the
  given outcome.
\<close>

definition example_env :: env where
  "example_env =
     \<lparr>time_start = 100, time_get = 100, time_set = 101, time_end = 102, time_end_except = 102,
      uuid4 = ''id-1'', uuid4_except = ''id-2'',
      utcnow = ''2025-12-15T10:30:00'', utcnow_except = ''2025-12-15T10:30:01''\<rparr>"

definition example_service :: service where
  "example_service =
     \<lparr>the_cache = SimpleCache_init Omitted, the_metrics = ResponseQualityMetrics_init,
      calls = []\<rparr>"

definition example_request :: QueryRequest where
  "example_request =
     \<lparr>query = ''What is ROS 2?'', selected_text = Some '''', session_id = None,
      request_metadata = None\<rparr>"

definition example_doc :: "string \<Rightarrow> string option \<Rightarrow> doc" where
  "example_doc i u =
     \<lparr>doc_document_id = Some i, doc_title = Some ''ROS 2'', doc_url = u,
      doc_text_snippet = Some ''ROS 2 is a framework for robots'',
      doc_relevance_score = Some (9 / 10)\<rparr>"

definition example_agent_response :: agent_response where
  "example_agent_response = \<lparr>agent_answer = Some ''ROS 2 is...'', agent_metadata = Omitted\<rparr>"

definition example_collaborators ::
  "(string \<Rightarrow> exn + real list option) option \<Rightarrow> doc list \<Rightarrow> exn + agent_response
     \<Rightarrow> collaborators" where
  "example_collaborators cohere docs generated =
     \<lparr>cohere_client = cohere, openai_client = None,
      search_documents = (\<lambda>v limit. Inr docs),
      generate_response = (\<lambda>q context st. generated)\<rparr>"

section \<open>Properties of the cache\<close>

lemma cache_get_set_same:
  "t' \<le> t + of_int ttl \<Longrightarrow>
   cache_get digest t' (cache_set digest t c q v s (Some ttl)) q s
     = (Some v, cache_set digest t c q v s (Some ttl))"
  by (simp add: cache_get_def cache_set_def Let_def)

text \<open>
  C4. A \<open>get\<close> right after a \<open>set\<close> with a positive \<open>ttl\<close> (less than a second later),
  and more generally any \<open>get\<close> up to the expiry time, returns the stored payload and
  leaves the cache as it is. A \<open>get\<close> that finds an entry whose expiry is strictly in
  the past deletes the entry and returns \<open>None\<close>. So an entry is visible to \<open>get\<close>
  exactly when the current time is at most its expiry.
\<close>

theorem cache_get_after_set:
  fixes c :: "'v SimpleCache"
  shows "(0 < ttl \<and> t \<le> t' \<and> t' < t + 1 \<longrightarrow>
            fst (cache_get digest t' (cache_set digest t c q v s (Some ttl)) q s) = Some v)
       \<and> (t' \<le> t + of_int ttl \<longrightarrow>
            cache_get digest t' (cache_set digest t c q v s (Some ttl)) q s
              = (Some v, cache_set digest t c q v s (Some ttl)))
       \<and> (cache c (generate_key digest q s) = Some e \<and> item_expiry e < now \<longrightarrow>
            cache_get digest now c q s
              = (None, c\<lparr>cache := (cache c)(generate_key digest q s := None)\<rparr>))
       \<and> (cache c (generate_key digest q s) = Some e \<longrightarrow>
            (cache_get digest now c q s = (Some (item_value e), c)) = (now \<le> item_expiry e))"
proof (intro conjI impI)
  assume h: "0 < ttl \<and> t \<le> t' \<and> t' < t + 1"
  then have "(1::real) \<le> of_int ttl" by linarith
  with h have "t' \<le> t + of_int ttl" by linarith
  then show "fst (cache_get digest t' (cache_set digest t c q v s (Some ttl)) q s) = Some v"
    by (simp add: cache_get_set_same)
next
  assume "t' \<le> t + of_int ttl"
  then show "cache_get digest t' (cache_set digest t c q v s (Some ttl)) q s
              = (Some v, cache_set digest t c q v s (Some ttl))"
    by (rule cache_get_set_same)
next
  assume "cache c (generate_key digest q s) = Some e \<and> item_expiry e < now"
  then show "cache_get digest now c q s
              = (None, c\<lparr>cache := (cache c)(generate_key digest q s := None)\<rparr>)"
    by (simp add: cache_get_def Let_def)
next
  assume "cache c (generate_key digest q s) = Some e"
  then show "(cache_get digest now c q s = (Some (item_value e), c)) = (now \<le> item_expiry e)"
    by (auto simp: cache_get_def Let_def)
qed

theorem cache_get_after_set_witness:
  "(0 < (5::int) \<and> (100::real) \<le> 100.5 \<and> (100.5::real) < 100 + 1)
   \<and> fst (cache_get id 100.5 (cache_set id 100 (SimpleCache_init Omitted :: nat SimpleCache)
               ''q'' 7 (Given (Some ''s'')) (Some 5)) ''q'' (Given (Some ''s''))) = Some 7
   \<and> cache_get id 106 (cache_set id 100 (SimpleCache_init Omitted :: nat SimpleCache)
               ''q'' 7 (Given (Some ''s'')) (Some 5)) ''q'' (Given (Some ''s''))
       = (None, SimpleCache_init Omitted)"
  using cache_get_after_set [where ttl = 5 and t = 100 and t' = "100.5" and digest = id
      and c = "SimpleCache_init Omitted :: nat SimpleCache" and q = "''q''" and v = 7
      and s = "Given (Some ''s'')"]
    cache_get_after_set [where digest = id and q = "''q''" and s = "Given (Some ''s'')"
      and c = "cache_set id 100 (SimpleCache_init Omitted :: nat SimpleCache) ''q'' 7
                 (Given (Some ''s'')) (Some 5)"
      and e = "\<lparr>item_value = 7, item_expiry = 105\<rparr>" and now = 106]
  by (simp add: cache_set_def generate_key_def cache_input_def SimpleCache_init_def Let_def)

text \<open>
  C9. The fingerprint is a function of the query and the selected text alone, and leaving
  \<open>selected_text\<close> out is the same as giving the empty string: the key is the same, and so
  are \<open>get\<close>, \<open>set\<close> and \<open>delete\<close>. A \<open>QueryRequest\<close> built without \<open>selected_text\<close>
  carries the empty string, so the key the orchestrator computes from it is that key too.
\<close>

theorem generate_key_absent_selected_text:
  "generate_key digest q Omitted = generate_key digest q (Given (Some ''''))
   \<and> cache_get digest now c q Omitted = cache_get digest now c q (Given (Some ''''))
   \<and> cache_set digest now c q v Omitted ttl = cache_set digest now c q v (Given (Some '''')) ttl
   \<and> cache_delete digest c q Omitted = cache_delete digest c q (Given (Some ''''))
   \<and> (QueryRequest_init q Omitted sid md = Inr r \<longrightarrow>
        generate_key digest (query r) (Given (selected_text r))
          = generate_key digest q (Given (Some '''')))"
  by (auto simp: generate_key_def cache_input_def cache_get_def cache_set_def cache_delete_def
        QueryRequest_init_def Let_def split: if_splits)

theorem generate_key_absent_selected_text_witness:
  "QueryRequest_init ''What is ROS 2?'' Omitted Omitted Omitted
     = Inr \<lparr>query = ''What is ROS 2?'', selected_text = Some '''', session_id = None,
            request_metadata = None\<rparr>
   \<and> generate_key id ''What is ROS 2?'' (Given (Some '''')) = ''What is ROS 2?::''
   \<and> generate_key id ''What is ROS 2?'' Omitted = ''What is ROS 2?::''"
  using generate_key_absent_selected_text [where digest = id and q = "''What is ROS 2?''"
      and sid = Omitted and md = Omitted
      and r = "\<lparr>query = ''What is ROS 2?'', selected_text = Some '''', session_id = None,
                request_metadata = None\<rparr>"]
  by (simp add: QueryRequest_init_def QueryRequest_valid_def generate_key_def cache_input_def)

text \<open>
  C10. The fingerprint is not injective: the distinct pairs \<open>("a::b", "c")\<close> and
  \<open>("a", "b::c")\<close> have the same key, whatever the hash function, so a \<open>get\<close> under the
  second pair returns what a \<open>set\<close> under the first pair stored, and that \<open>set\<close>
  replaces whatever entry the second pair had.
\<close>

theorem generate_key_collision:
  "(''a::b'', Some ''c'') \<noteq> (''a'', Some ''b::c'')
   \<and> generate_key digest ''a::b'' (Given (Some ''c''))
        = generate_key digest ''a'' (Given (Some ''b::c''))
   \<and> cache (cache_set digest t c ''a::b'' v (Given (Some ''c'')) ttl)
          (generate_key digest ''a'' (Given (Some ''b::c'')))
        = Some \<lparr>item_value = v,
                 item_expiry = t + of_int (case ttl of None \<Rightarrow> default_ttl c | Some n \<Rightarrow> n)\<rparr>
   \<and> (t' \<le> t + of_int n \<longrightarrow>
        fst (cache_get digest t' (cache_set digest t c ''a::b'' v (Given (Some ''c'')) (Some n))
               ''a'' (Given (Some ''b::c''))) = Some v)"
  by (simp add: generate_key_def cache_input_def cache_get_def cache_set_def Let_def)

theorem generate_key_collision_witness:
  "(1::real) \<le> 0 + of_int 3600
   \<and> fst (cache_get id 1
            (cache_set id 0
               (cache_set id 0 (SimpleCache_init Omitted) ''a'' (1::nat) (Given (Some ''b::c''))
                  (Some 3600))
               ''a::b'' 2 (Given (Some ''c'')) (Some 3600))
            ''a'' (Given (Some ''b::c''))) = Some 2"
  using generate_key_collision [where digest = id and t = 0 and t' = 1 and n = 3600 and v = 2
      and c = "cache_set id 0 (SimpleCache_init Omitted) ''a'' (1::nat) (Given (Some ''b::c''))
                  (Some 3600)"]
  by simp

section \<open>Properties of the rate limiter\<close>

lemma in_window_append:
  "in_window (xs @ ys) =
     (in_window xs \<and> in_window ys \<and> (\<forall>x\<in>set xs. \<forall>y\<in>set ys. y - x < 60))"
  by (induction xs) (auto simp: list_all_iff)

lemma is_allowed_under_limit:
  assumes "requests_of r k = seen" and "\<forall>x\<in>set seen. t - x < 60"
    and "int (length seen) < requests_per_minute r"
  shows "is_allowed t r k = (True, r\<lparr>requests := (requests r)(k \<mapsto> seen @ [t])\<rparr>)"
proof -
  have "filter (\<lambda>x. t - x < 60) seen = seen"
    using assms(2) by (simp add: filter_id_conv)
  then show ?thesis
    using assms(1,3) by (simp add: is_allowed_def Let_def)
qed

lemma is_allowed_calls_under_limit:
  "requests_of r k = seen \<Longrightarrow> in_window (seen @ ts) \<Longrightarrow>
   int (length seen + length ts) \<le> requests_per_minute r \<Longrightarrow>
   fst (is_allowed_calls r k ts) = replicate (length ts) True
   \<and> requests_of (snd (is_allowed_calls r k ts)) k = seen @ ts
   \<and> requests_per_minute (snd (is_allowed_calls r k ts)) = requests_per_minute r"
proof (induction ts arbitrary: r seen)
  case Nil
  then show ?case by simp
next
  case (Cons t ts)
  let ?r1 = "r\<lparr>requests := (requests r)(k \<mapsto> seen @ [t])\<rparr>"
  from Cons.prems(2) have w: "\<forall>x\<in>set seen. t - x < 60"
    by (auto simp: in_window_append)
  from Cons.prems(3) have l: "int (length seen) < requests_per_minute r" by simp
  have step: "is_allowed t r k = (True, ?r1)"
    using is_allowed_under_limit [OF Cons.prems(1) w l] .
  have a: "requests_of ?r1 k = seen @ [t]" by (simp add: requests_of_def)
  have b: "in_window ((seen @ [t]) @ ts)" using Cons.prems(2) by simp
  have c: "int (length (seen @ [t]) + length ts) \<le> requests_per_minute ?r1"
    using Cons.prems(3) by simp
  from Cons.IH [OF a b c] show ?case
    by (simp add: step split_beta)
qed

lemma is_allowed_decision:
  "fst (is_allowed t r k) =
     (int (length (filter (\<lambda>x. t - x < 60) (requests_of r k))) < requests_per_minute r)"
  by (simp add: is_allowed_def Let_def)

lemma is_allowed_at_limit:
  assumes "requests_of r k = seen" and "\<forall>x\<in>set seen. t - x < 60"
    and "requests_per_minute r \<le> int (length seen)"
  shows "fst (is_allowed t r k) = False \<and> requests_of (snd (is_allowed t r k)) k = seen"
proof -
  have "filter (\<lambda>x. t - x < 60) seen = seen"
    using assms(2) by (simp add: filter_id_conv)
  then show ?thesis
    using assms(1,3) by (simp add: is_allowed_def Let_def requests_of_def)
qed

lemma is_allowed_after_window:
  assumes "requests_of r k = seen" and "\<forall>x\<in>set seen. 60 \<le> u - x"
    and "0 < requests_per_minute r"
  shows "fst (is_allowed u r k) = True \<and> requests_of (snd (is_allowed u r k)) k = [u]"
proof -
  have "filter (\<lambda>x. u - x < 60) seen = []"
    using assms(2) by (auto simp: filter_empty_conv)
  then show ?thesis
    using assms(1,3) by (simp add: is_allowed_def Let_def requests_of_def)
qed

text \<open>
  C5. For a limiter with limit \<open>n\<close> and an identity with no recorded request: \<open>n\<close> calls
  whose readings lie in one window are all allowed and each records its reading; a further
  call in the window is denied and records nothing; a call 60 seconds or more after all of
  them is allowed again (for a limit of at least one) and only its own reading remains.
  In any state the answer is whether fewer than \<open>n\<close> recorded readings are less than 60
  seconds before the reading of the call: the window slides with the call.
\<close>

theorem rate_limiter_window:
  assumes fresh: "requests_of r k = []"
    and limit: "requests_per_minute r = n" "0 \<le> n" "length ts = nat n"
    and window: "in_window (ts @ [t])"
    and later: "list_all (\<lambda>x. 60 \<le> u - x) ts"
  shows "fst (is_allowed_calls r k ts) = replicate (nat n) True
       \<and> requests_of (snd (is_allowed_calls r k ts)) k = ts
       \<and> fst (is_allowed t (snd (is_allowed_calls r k ts)) k) = False
       \<and> requests_of (snd (is_allowed t (snd (is_allowed_calls r k ts)) k)) k = ts
       \<and> (0 < n \<longrightarrow>
            fst (is_allowed u (snd (is_allowed t (snd (is_allowed_calls r k ts)) k)) k) = True
          \<and> requests_of
               (snd (is_allowed u (snd (is_allowed t (snd (is_allowed_calls r k ts)) k)) k)) k
              = [u])
       \<and> fst (is_allowed v r' k) =
           (int (length (filter (\<lambda>x. v - x < 60) (requests_of r' k))) < requests_per_minute r')"
proof -
  let ?r1 = "snd (is_allowed_calls r k ts)"
  let ?r2 = "snd (is_allowed t ?r1 k)"
  have w: "in_window ([] @ ts)" using window by (simp add: in_window_append)
  have l: "int (length ([]::real list) + length ts) \<le> requests_per_minute r"
    using limit by simp
  note run = is_allowed_calls_under_limit [OF fresh w l]
  from run limit have p1: "fst (is_allowed_calls r k ts) = replicate (nat n) True" by simp
  from run have r1: "requests_of ?r1 k = ts" by simp
  have wt: "\<forall>x\<in>set ts. t - x < 60" using window by (auto simp: in_window_append)
  have full: "requests_per_minute ?r1 \<le> int (length ts)" using run limit by simp
  note deny = is_allowed_at_limit [OF r1 wt full]
  from deny have p3: "fst (is_allowed t ?r1 k) = False" by simp
  from deny have r2: "requests_of ?r2 k = ts" by simp
  have n2: "requests_per_minute ?r2 = n"
    using run limit by (simp add: is_allowed_def Let_def)
  have lu: "\<forall>x\<in>set ts. 60 \<le> u - x" using later by (simp add: list_all_iff)
  have p5: "fst (is_allowed u ?r2 k) = True
          \<and> requests_of (snd (is_allowed u ?r2 k)) k = [u]" if "0 < n"
    using is_allowed_after_window [OF r2 lu] that n2 by simp
  show ?thesis
    using p1 r1 p3 r2 p5 is_allowed_decision [of v r' k] by blast
qed

theorem rate_limiter_window_witness:
  "requests_of (RateLimiter_init 2) ''key'' = []
   \<and> in_window ([0, 10] @ [20]) \<and> list_all (\<lambda>x. 60 \<le> 70 - x) [0, 10 :: real]
   \<and> fst (is_allowed_calls (RateLimiter_init 2) ''key'' [0, 10]) = [True, True]
   \<and> fst (is_allowed 20 (snd (is_allowed_calls (RateLimiter_init 2) ''key'' [0, 10])) ''key'')
       = False
   \<and> fst (is_allowed 70
        (snd (is_allowed 20 (snd (is_allowed_calls (RateLimiter_init 2) ''key'' [0, 10])) ''key''))
        ''key'') = True"
  using rate_limiter_window [of "RateLimiter_init 2" "''key''" 2 "[0, 10]" 20 70]
  by (simp add: RateLimiter_init_def requests_of_def is_allowed_def Let_def numeral_2_eq_2)

section \<open>Properties of the metrics tracker\<close>

lemma log_query_end_success:
  assumes "0 \<le> successful_queries m"
  shows "log_query_end now m start_time True response =
     Inr (m\<lparr>total_queries := total_queries m + 1,
            response_times := response_times m @ [now - start_time],
            total_response_time := total_response_time m + (now - start_time),
            successful_queries := successful_queries m + 1,
            total_citations := total_citations m
               + call_citations (start_time, now, True, response),
            avg_response_time := (total_response_time m + (now - start_time))
               / of_int (successful_queries m + 1),
            avg_citations_per_response :=
               of_int (total_citations m + call_citations (start_time, now, True, response))
               / of_int (successful_queries m + 1)\<rparr>)"
proof -
  have nz: "real_of_int (successful_queries m) + 1 \<noteq> 0"
    using assms by (metis add.commute of_int_0_le_iff add_nonneg_eq_0_iff zero_le_one zero_neq_one)
  show ?thesis
    using assms nz
    by (cases response) (simp_all add: log_query_end_def truediv_def call_citations_def Let_def)
qed

lemma call_simps:
  "call_success (st, now, su, re) = su"
  "call_duration (st, now, su, re) = now - st"
  by (simp_all add: call_success_def call_duration_def)

lemma log_query_end_total:
  "\<exists>m1. log_query_end now m start_time success response = Inr m1
        \<and> (successful_queries m1 \<le> 0 \<longrightarrow>
             avg_response_time m1 = 0 \<and> avg_citations_per_response m1 = 0)"
  by (cases response; cases success)
     (auto simp: log_query_end_def truediv_def Let_def)

lemma log_query_end_calls_total:
  "(successful_queries m \<le> 0 \<longrightarrow> avg_response_time m = 0 \<and> avg_citations_per_response m = 0)
   \<Longrightarrow> \<exists>m1. log_query_end_calls m cs = Inr m1
        \<and> (successful_queries m1 \<le> 0 \<longrightarrow>
             avg_response_time m1 = 0 \<and> avg_citations_per_response m1 = 0)"
proof (induction cs arbitrary: m)
  case Nil
  then show ?case by simp
next
  case (Cons c cs)
  obtain st now su re where c: "c = (st, now, su, re)" by (cases c) auto
  from log_query_end_total [of now m st su re] obtain m1 where
    m1: "log_query_end now m st su re = Inr m1"
       "successful_queries m1 \<le> 0 \<longrightarrow>
             avg_response_time m1 = 0 \<and> avg_citations_per_response m1 = 0" by blast
  from Cons.IH [OF m1(2)] show ?case by (simp add: c m1(1))
qed

lemma log_query_end_calls_success:
  "list_all call_success cs \<Longrightarrow> cs \<noteq> [] \<Longrightarrow> 0 \<le> successful_queries m \<Longrightarrow>
   \<exists>m1. log_query_end_calls m cs = Inr m1
      \<and> successful_queries m1 = successful_queries m + int (length cs)
      \<and> total_response_time m1 = total_response_time m + sum_list (map call_duration cs)
      \<and> total_citations m1 = total_citations m + sum_list (map call_citations cs)
      \<and> failed_queries m1 = failed_queries m
      \<and> avg_response_time m1 = total_response_time m1 / of_int (successful_queries m1)
      \<and> avg_citations_per_response m1
           = of_int (total_citations m1) / of_int (successful_queries m1)"
proof (induction cs arbitrary: m)
  case Nil
  then show ?case by simp
next
  case (Cons c cs)
  obtain st now su re where c: "c = (st, now, su, re)" by (cases c) auto
  from Cons.prems(1) have su: "su = True" and rest: "list_all call_success cs"
    by (simp_all add: c call_simps)
  note step = log_query_end_success [OF Cons.prems(3), of now st re]
  show ?case
  proof (cases "cs = []")
    case True
    then show ?thesis
      by (simp add: c su step call_simps)
  next
    case False
    let ?m1 = "m\<lparr>total_queries := total_queries m + 1,
            response_times := response_times m @ [now - st],
            total_response_time := total_response_time m + (now - st),
            successful_queries := successful_queries m + 1,
            total_citations := total_citations m + call_citations (st, now, True, re),
            avg_response_time := (total_response_time m + (now - st))
               / of_int (successful_queries m + 1),
            avg_citations_per_response :=
               of_int (total_citations m + call_citations (st, now, True, re))
               / of_int (successful_queries m + 1)\<rparr>"
    have "0 \<le> successful_queries ?m1" using Cons.prems(3) by simp
    from Cons.IH [OF rest False this] obtain m2 where
      m2: "log_query_end_calls ?m1 cs = Inr m2"
        "successful_queries m2 = successful_queries ?m1 + int (length cs)"
        "total_response_time m2 = total_response_time ?m1 + sum_list (map call_duration cs)"
        "total_citations m2 = total_citations ?m1 + sum_list (map call_citations cs)"
        "failed_queries m2 = failed_queries ?m1"
        "avg_response_time m2 = total_response_time m2 / of_int (successful_queries m2)"
        "avg_citations_per_response m2
           = of_int (total_citations m2) / of_int (successful_queries m2)"
      by blast
    have run: "log_query_end_calls m (c # cs) = Inr m2"
      using m2(1) by (simp add: c su step)
    show ?thesis
      unfolding run using m2(2-7)
      by (simp add: c su call_simps)
  qed
qed

text \<open>
  C6. After \<open>k > 0\<close> successful calls of \<open>log_query_end\<close> from the initial state, and
  no failed one, \<open>avg_response_time\<close> is the sum of the durations divided by \<open>k\<close> and
  \<open>avg_citations_per_response\<close> is the sum of the citation counts divided by \<open>k\<close>.
  After any sequence of calls, no exception was raised, and if \<open>successful_queries\<close> is
  0 both averages are 0. No call of \<open>log_query_end\<close> raises, in any state.
\<close>

theorem metrics_averages:
  "(cs \<noteq> [] \<and> list_all call_success cs \<longrightarrow>
      (\<exists>m. log_query_end_calls ResponseQualityMetrics_init cs = Inr m
         \<and> successful_queries m = int (length cs) \<and> failed_queries m = 0
         \<and> avg_response_time m = sum_list (map call_duration cs) / real (length cs)
         \<and> avg_citations_per_response m
              = real_of_int (sum_list (map call_citations cs)) / real (length cs)))
   \<and> (\<exists>m. log_query_end_calls ResponseQualityMetrics_init cs' = Inr m
         \<and> (successful_queries m = 0 \<longrightarrow>
               avg_response_time m = 0 \<and> avg_citations_per_response m = 0))
   \<and> (\<exists>m1. log_query_end now m0 start_time success response = Inr m1)"
proof (intro conjI impI)
  assume h: "cs \<noteq> [] \<and> list_all call_success cs"
  have z: "0 \<le> successful_queries ResponseQualityMetrics_init"
    by (simp add: ResponseQualityMetrics_init_def)
  from h log_query_end_calls_success [OF _ _ z, of cs] obtain m where
    m: "log_query_end_calls ResponseQualityMetrics_init cs = Inr m"
      "successful_queries m = successful_queries ResponseQualityMetrics_init + int (length cs)"
      "total_response_time m
         = total_response_time ResponseQualityMetrics_init + sum_list (map call_duration cs)"
      "total_citations m
         = total_citations ResponseQualityMetrics_init + sum_list (map call_citations cs)"
      "failed_queries m = failed_queries ResponseQualityMetrics_init"
      "avg_response_time m = total_response_time m / of_int (successful_queries m)"
      "avg_citations_per_response m
           = of_int (total_citations m) / of_int (successful_queries m)"
    by blast
  show "\<exists>m. log_query_end_calls ResponseQualityMetrics_init cs = Inr m
         \<and> successful_queries m = int (length cs) \<and> failed_queries m = 0
         \<and> avg_response_time m = sum_list (map call_duration cs) / real (length cs)
         \<and> avg_citations_per_response m
              = real_of_int (sum_list (map call_citations cs)) / real (length cs)"
    using m by (simp add: ResponseQualityMetrics_init_def)
next
  have "successful_queries ResponseQualityMetrics_init \<le> 0 \<longrightarrow>
          avg_response_time ResponseQualityMetrics_init = 0
        \<and> avg_citations_per_response ResponseQualityMetrics_init = 0"
    by (simp add: ResponseQualityMetrics_init_def)
  from log_query_end_calls_total [OF this, of cs']
  show "\<exists>m. log_query_end_calls ResponseQualityMetrics_init cs' = Inr m
         \<and> (successful_queries m = 0 \<longrightarrow>
               avg_response_time m = 0 \<and> avg_citations_per_response m = 0)"
    by auto
next
  from log_query_end_total [of now m0 start_time success response]
  show "\<exists>m1. log_query_end now m0 start_time success response = Inr m1" by blast
qed


theorem metrics_averages_witness:
  "list_all call_success
     [(0, 2, True, Some \<lparr>answer = ''a'', citations = [], query_id = ''1'', timestamp = ''t'',
                           metadata = None\<rparr>),
      (5, 9, True, None)]
   \<and> (\<exists>m. log_query_end_calls ResponseQualityMetrics_init
          [(0, 2, True, Some \<lparr>answer = ''a'', citations = [], query_id = ''1'', timestamp = ''t'',
                                metadata = None\<rparr>),
           (5, 9, True, None)] = Inr m
        \<and> successful_queries m = 2 \<and> avg_response_time m = 3
        \<and> avg_citations_per_response m = 0)"
proof -
  let ?cs = "[(0::real, 2::real, True,
                Some \<lparr>answer = ''a'', citations = [], query_id = ''1'', timestamp = ''t'',
                      metadata = None\<rparr>),
              (5, 9, True, None)]"
  have h: "?cs \<noteq> [] \<and> list_all call_success ?cs"
    by (simp add: call_success_def)
  have d: "sum_list (map call_duration ?cs) / real (length ?cs) = 3"
    by (simp add: call_duration_def)
  have c: "real_of_int (sum_list (map call_citations ?cs)) / real (length ?cs) = 0"
    by (simp add: call_citations_def)
  have "\<exists>m. log_query_end_calls ResponseQualityMetrics_init ?cs = Inr m
         \<and> successful_queries m = int (length ?cs) \<and> failed_queries m = 0
         \<and> avg_response_time m = sum_list (map call_duration ?cs) / real (length ?cs)
         \<and> avg_citations_per_response m
              = real_of_int (sum_list (map call_citations ?cs)) / real (length ?cs)"
    using metrics_averages [where cs = ?cs] h by blast
  then obtain m where run: "log_query_end_calls ResponseQualityMetrics_init ?cs = Inr m"
    and n: "successful_queries m = int (length ?cs)"
    and a: "avg_response_time m = sum_list (map call_duration ?cs) / real (length ?cs)"
    and b: "avg_citations_per_response m
              = real_of_int (sum_list (map call_citations ?cs)) / real (length ?cs)"
    by blast
  have "successful_queries m = 2" using n by simp
  moreover have "avg_response_time m = 3" using a [unfolded d] .
  moreover have "avg_citations_per_response m = 0" using b [unfolded c] .
  ultimately show ?thesis using h run by blast
qed

section \<open>Properties of the orchestrator\<close>

lemma QueryResponse_init_valid:
  "QueryResponse_init a cs qid ts md = Inr r \<Longrightarrow> QueryResponse_valid r"
  by (auto simp: QueryResponse_init_def Let_def split: if_splits)

lemma error_answer_length: "length error_answer = 60"
  by (simp add: error_answer_def)

lemma no_documents_answer_length: "length no_documents_answer = 63"
  by (simp add: no_documents_answer_def)

lemma error_response_init:
  "QueryResponse_init error_answer [] qid ts (Given md)
     = Inr \<lparr>answer = error_answer, citations = [], query_id = qid, timestamp = ts,
            metadata = md\<rparr>"
  by (simp add: QueryResponse_init_def QueryResponse_valid_def error_answer_length)

lemma no_documents_response_init:
  "QueryResponse_init no_documents_answer [] qid ts Omitted
     = Inr \<lparr>answer = no_documents_answer, citations = [], query_id = qid, timestamp = ts,
            metadata = None\<rparr>"
  by (simp add: QueryResponse_init_def QueryResponse_valid_def no_documents_answer_length)

lemma log_query_end_failed:
  "\<exists>m1. log_query_end now m start_time False response = Inr m1
      \<and> failed_queries m1 = failed_queries m + 1
      \<and> successful_queries m1 = successful_queries m
      \<and> total_queries m1 = total_queries m + 1"
  by (auto simp: log_query_end_def truediv_def Let_def)


lemma cache_hit_outcome:
  "(cache_hit digest ev s req st cached = (Inr r, s1) \<longrightarrow> QueryResponse_valid r)
   \<and> (cache_hit digest ev s req st cached = (Inl e, s1) \<longrightarrow>
         the_metrics s1 = the_metrics s \<and> calls s1 = calls s)"
  by (auto simp: cache_hit_def Let_def dest: QueryResponse_init_valid split: sum.splits)

lemma no_documents_outcome:
  "(no_documents ev s st = (Inr r, s1) \<longrightarrow> QueryResponse_valid r)
   \<and> (no_documents ev s st = (Inl e, s1) \<longrightarrow> the_metrics s1 = the_metrics s)"
  by (auto simp: no_documents_def dest: QueryResponse_init_valid split: sum.splits)

lemma with_documents_outcome:
  "(with_documents digest ev co s req st docs = (Inr r, s1) \<longrightarrow> QueryResponse_valid r)
   \<and> (with_documents digest ev co s req st docs = (Inl e, s1) \<longrightarrow>
         the_metrics s1 = the_metrics s)"
  by (auto simp: with_documents_def Let_def dest: QueryResponse_init_valid
        split: sum.splits option.splits if_splits)

lemma cache_miss_outcome:
  "(cache_miss digest ev co s req st = (Inr r, s1) \<longrightarrow> QueryResponse_valid r)
   \<and> (cache_miss digest ev co s req st = (Inl e, s1) \<longrightarrow> the_metrics s1 = the_metrics s)"
  using no_documents_outcome [of ev _ st r s1 e]
    with_documents_outcome [of digest ev co _ req st _ r s1 e]
  by (auto simp: cache_miss_def Let_def split: sum.splits if_splits)

lemma query_documentation_try_outcome:
  "(query_documentation_try digest ev co s req st = (Inr r, s1) \<longrightarrow> QueryResponse_valid r)
   \<and> (query_documentation_try digest ev co s req st = (Inl e, s1) \<longrightarrow>
         the_metrics s1 = the_metrics s)"
  using cache_hit_outcome [of digest ev _ req st _ r s1 e]
    cache_miss_outcome [of digest ev co _ req st r s1 e]
  by (auto simp: query_documentation_try_def split: prod.splits option.splits)


lemma example_miss:
  "cache_get id (time_get example_env) (the_cache example_service) (query example_request)
      (Given (selected_text example_request)) = (None, SimpleCache_init Omitted)"
  by (simp add: cache_get_def example_service_def SimpleCache_init_def Let_def)

lemma example_query_text: "query_text example_request = ''What is ROS 2?''"
  by (simp add: query_text_def example_request_def get_default_def)

lemma example_embedding_mock:
  "generate_embedding (example_collaborators None docs g) t = Some (replicate 1024 0)"
  by (simp add: generate_embedding_def example_collaborators_def)

lemma example_embedding_raise:
  "generate_embedding (example_collaborators (Some (\<lambda>t. Inl e)) docs g) t
     = Some (replicate 1024 0)"
  by (simp add: generate_embedding_def example_collaborators_def)

lemma example_doc_citation_ok:
  "doc_citation (example_doc i (Some ''/docs/ros2''))
     = Inr \<lparr>document_id = i, title = ''ROS 2'', url = ''/docs/ros2'',
            text_snippet = ''ROS 2 is a framework for robots'', relevance_score = 9 / 10\<rparr>"
  by (simp add: doc_citation_def example_doc_def get_default_def Citation_init_def
        Citation_valid_def url_pattern_def startswith_def no_line_feed_def Let_def)

lemma example_doc_citation_missing_url:
  "doc_citation (example_doc i None) = Inl ValidationError"
  by (simp add: doc_citation_def example_doc_def get_default_def Citation_init_def
        Citation_valid_def url_pattern_def startswith_def no_line_feed_def Let_def)

lemma example_doc_citation_ftp:
  "doc_citation (example_doc i (Some ''ftp://bad'')) = Inl ValidationError"
  by (simp add: doc_citation_def example_doc_def get_default_def Citation_init_def
        Citation_valid_def url_pattern_def startswith_def no_line_feed_def Let_def)

lemma strip_example: "strip ''ROS 2 is...'' = ''ROS 2 is...''"
  by (simp add: strip_def isspace_def)

lemma example_response_init:
  "QueryResponse_init ''ROS 2 is...''
      [\<lparr>document_id = i, title = ''ROS 2'', url = ''/docs/ros2'',
        text_snippet = ''ROS 2 is a framework for robots'', relevance_score = 9 / 10\<rparr>]
      qid ts (Given md)
   = Inr \<lparr>answer = ''ROS 2 is...'',
          citations = [\<lparr>document_id = i, title = ''ROS 2'', url = ''/docs/ros2'',
             text_snippet = ''ROS 2 is a framework for robots'', relevance_score = 9 / 10\<rparr>],
          query_id = qid, timestamp = ts, metadata = md\<rparr>"
  by (simp add: QueryResponse_init_def QueryResponse_valid_def Citation_valid_def
        url_pattern_def startswith_def no_line_feed_def)

text \<open>
  C1. For every request, every state of the cache and the metrics, and every behaviour of
  the embedding clients, the search and the generation (returning any value or raising any
  \<open>Exception\<close>), \<open>query_documentation\<close> returns a response and raises nothing, and
  the response is a valid \<open>QueryResponse\<close>. When the \<open>try\<close> block raised \<open>e\<close>, the
  response is the apology answer with no citations, the identifier and timestamp drawn in
  the handler and the note \<open>{"error": str(e)}\<close> as metadata, and the metrics count one more
  query, one more failed query and no more successful one.
\<close>

theorem query_documentation_never_raises:
  "\<exists>response s1.
      query_documentation digest ev co s req = (Inr response, s1)
    \<and> QueryResponse_valid response
    \<and> (\<forall>e s0. query_documentation_try digest ev co s req (time_start ev) = (Inl e, s0) \<longrightarrow>
          response = \<lparr>answer = error_answer, citations = [], query_id = uuid4_except ev,
                       timestamp = utcnow_except ev @ ''Z'',
                       metadata = Some [(''error'', MErr e)]\<rparr>
        \<and> failed_queries (the_metrics s1) = failed_queries (the_metrics s) + 1
        \<and> successful_queries (the_metrics s1) = successful_queries (the_metrics s)
        \<and> total_queries (the_metrics s1) = total_queries (the_metrics s) + 1
        \<and> the_cache s1 = the_cache s0)"
proof (cases "query_documentation_try digest ev co s req (time_start ev)")
  case (Pair out s0)
  show ?thesis
  proof (cases out)
    case (Inr response)
    with Pair query_documentation_try_outcome [of digest ev co s req "time_start ev" response s0]
    have "QueryResponse_valid response" by simp
    with Pair Inr show ?thesis
      by (simp add: query_documentation_def)
  next
    case (Inl e)
    let ?r = "\<lparr>answer = error_answer, citations = [], query_id = uuid4_except ev,
               timestamp = utcnow_except ev @ ''Z'', metadata = Some [(''error'', MErr e)]\<rparr>"
    have m0: "the_metrics s0 = the_metrics s"
      using Pair Inl query_documentation_try_outcome [of digest ev co s req "time_start ev" _ s0 e]
      by simp
    from log_query_end_failed [of "time_end_except ev" "the_metrics s0" "time_start ev" "Some ?r"]
    obtain m1 where
      m1: "log_query_end (time_end_except ev) (the_metrics s0) (time_start ev) False (Some ?r)
             = Inr m1"
        "failed_queries m1 = failed_queries (the_metrics s0) + 1"
        "successful_queries m1 = successful_queries (the_metrics s0)"
        "total_queries m1 = total_queries (the_metrics s0) + 1"
      by blast
    have run: "query_documentation digest ev co s req = (Inr ?r, s0\<lparr>the_metrics := m1\<rparr>)"
      using Pair Inl m1(1) by (simp add: query_documentation_def error_response_init)
    have v: "QueryResponse_valid ?r"
      by (simp add: QueryResponse_valid_def error_answer_length)
    show ?thesis
      unfolding run using Pair Inl v m1(2-4) m0 by simp
  qed
qed

theorem query_documentation_never_raises_witness:
  "query_documentation_try id example_env
       (example_collaborators None [example_doc ''doc1'' (Some ''/docs/ros2'')]
          (Inl (Exception ''model is down'')))
       example_service example_request (time_start example_env)
     = (Inl (Exception ''model is down''),
        example_service\<lparr>calls := [SearchCall (replicate 1024 0) 5,
           GenerateCall ''What is ROS 2?'' [example_doc ''doc1'' (Some ''/docs/ros2'')]
             (Some '''')]\<rparr>)
   \<and> (\<exists>s1. query_documentation id example_env
          (example_collaborators None [example_doc ''doc1'' (Some ''/docs/ros2'')]
             (Inl (Exception ''model is down'')))
          example_service example_request
        = (Inr \<lparr>answer = error_answer, citations = [], query_id = ''id-2'',
                timestamp = ''2025-12-15T10:30:01Z'',
                metadata = Some [(''error'', MErr (Exception ''model is down''))]\<rparr>, s1)
      \<and> failed_queries (the_metrics s1) = 1)"
proof -
  let ?co = "example_collaborators None [example_doc ''doc1'' (Some ''/docs/ros2'')]
               (Inl (Exception ''model is down''))"
  let ?s0 = "example_service\<lparr>calls := [SearchCall (replicate 1024 0) 5,
           GenerateCall ''What is ROS 2?'' [example_doc ''doc1'' (Some ''/docs/ros2'')]
             (Some '''')]\<rparr>"
  have tr: "query_documentation_try id example_env ?co example_service example_request
              (time_start example_env) = (Inl (Exception ''model is down''), ?s0)"
    by (simp add: query_documentation_try_def example_miss cache_miss_def example_query_text
          with_documents_def Let_def get_default_def example_collaborators_def
          example_service_def example_request_def SimpleCache_init_def cache_get_def
          generate_embedding_def)
  from query_documentation_never_raises [of id example_env ?co example_service example_request]
  obtain response s1 where
    run: "query_documentation id example_env ?co example_service example_request
            = (Inr response, s1)"
    and err: "\<forall>e s0. query_documentation_try id example_env ?co example_service example_request
                 (time_start example_env) = (Inl e, s0) \<longrightarrow>
          response = \<lparr>answer = error_answer, citations = [], query_id = uuid4_except example_env,
                       timestamp = utcnow_except example_env @ ''Z'',
                       metadata = Some [(''error'', MErr e)]\<rparr>
        \<and> failed_queries (the_metrics s1) = failed_queries (the_metrics example_service) + 1
        \<and> successful_queries (the_metrics s1) = successful_queries (the_metrics example_service)
        \<and> total_queries (the_metrics s1) = total_queries (the_metrics example_service) + 1
        \<and> the_cache s1 = the_cache s0"
    by blast
  from err tr have
    r: "response = \<lparr>answer = error_answer, citations = [], query_id = uuid4_except example_env,
                       timestamp = utcnow_except example_env @ ''Z'',
                       metadata = Some [(''error'', MErr (Exception ''model is down''))]\<rparr>"
    and f: "failed_queries (the_metrics s1) = failed_queries (the_metrics example_service) + 1"
    by blast+
  have "failed_queries (the_metrics s1) = 1"
    using f by (simp add: example_service_def ResponseQualityMetrics_init_def)
  moreover have "uuid4_except example_env = ''id-2''"
    and "utcnow_except example_env @ ''Z'' = ''2025-12-15T10:30:01Z''"
    by (simp_all add: example_env_def)
  ultimately show ?thesis using run r tr by auto
qed

lemma cache_get_miss_map_le:
  "cache (snd (cache_get digest now c q st)) \<subseteq>\<^sub>m cache c"
  by (auto simp: cache_get_def Let_def map_le_def split: option.splits)

text \<open>
  C8. On a cache miss with an embedding, when the search returns no document, the response
  is the fixed answer with no citations, the identifier and timestamp drawn in this call
  and no metadata; the metrics count one more query and one more failed query; the cache is
  what the lookup left (no entry is written); the search was the only collaborator called.
\<close>

theorem no_documents_response:
  assumes miss: "fst (cache_get digest (time_get ev) (the_cache s) (query req)
                        (Given (selected_text req))) = None"
    and emb: "generate_embedding co (query_text req) = Some v" "v \<noteq> []"
    and none: "search_documents co v 5 = Inr []"
  shows "\<exists>s1. query_documentation digest ev co s req
           = (Inr \<lparr>answer = no_documents_answer, citations = [], query_id = uuid4 ev,
                   timestamp = utcnow ev @ ''Z'', metadata = None\<rparr>, s1)
         \<and> failed_queries (the_metrics s1) = failed_queries (the_metrics s) + 1
         \<and> successful_queries (the_metrics s1) = successful_queries (the_metrics s)
         \<and> total_queries (the_metrics s1) = total_queries (the_metrics s) + 1
         \<and> the_cache s1 = snd (cache_get digest (time_get ev) (the_cache s) (query req)
                                 (Given (selected_text req)))
         \<and> cache (the_cache s1) \<subseteq>\<^sub>m cache (the_cache s)
         \<and> calls s1 = calls s @ [SearchCall v 5]"
proof -
  let ?c1 = "snd (cache_get digest (time_get ev) (the_cache s) (query req)
                    (Given (selected_text req)))"
  let ?r = "\<lparr>answer = no_documents_answer, citations = [], query_id = uuid4 ev,
              timestamp = utcnow ev @ ''Z'', metadata = None\<rparr>"
  let ?s0 = "s\<lparr>the_cache := ?c1, calls := calls s @ [SearchCall v 5]\<rparr>"
  from log_query_end_failed [of "time_end ev" "the_metrics s" "time_start ev" "Some ?r"]
  obtain m1 where
    m1: "log_query_end (time_end ev) (the_metrics s) (time_start ev) False (Some ?r) = Inr m1"
      "failed_queries m1 = failed_queries (the_metrics s) + 1"
      "successful_queries m1 = successful_queries (the_metrics s)"
      "total_queries m1 = total_queries (the_metrics s) + 1"
    by blast
  have nd: "no_documents ev ?s0 (time_start ev) = (Inr ?r, ?s0\<lparr>the_metrics := m1\<rparr>)"
    using m1(1) by (simp add: no_documents_def no_documents_response_init)
  have cm: "cache_miss digest ev co (s\<lparr>the_cache := ?c1\<rparr>) req (time_start ev)
              = (Inr ?r, ?s0\<lparr>the_metrics := m1\<rparr>)"
    using emb none nd by (simp add: cache_miss_def Let_def get_default_def)
  have tr: "query_documentation_try digest ev co s req (time_start ev)
              = (Inr ?r, ?s0\<lparr>the_metrics := m1\<rparr>)"
    using miss cm by (auto simp: query_documentation_try_def split: prod.splits option.splits)
  have run: "query_documentation digest ev co s req = (Inr ?r, ?s0\<lparr>the_metrics := m1\<rparr>)"
    using tr by (simp add: query_documentation_def)
  show ?thesis
    unfolding run using m1(2-4) cache_get_miss_map_le [of digest "time_get ev" "the_cache s"]
    by simp
qed

theorem no_documents_response_witness:
  "\<exists>s1. query_documentation id example_env
           (example_collaborators None [] (Inr example_agent_response))
           example_service example_request
         = (Inr \<lparr>answer = no_documents_answer, citations = [], query_id = ''id-1'',
                 timestamp = ''2025-12-15T10:30:00Z'', metadata = None\<rparr>, s1)
       \<and> failed_queries (the_metrics s1) = 1
       \<and> successful_queries (the_metrics s1) = 0
       \<and> cache (the_cache s1) = Map.empty
       \<and> calls s1 = [SearchCall (replicate 1024 0) 5]"
proof -
  let ?co = "example_collaborators None [] (Inr example_agent_response)"
  have 1: "fst (cache_get id (time_get example_env) (the_cache example_service)
             (query example_request) (Given (selected_text example_request))) = None"
    by (simp add: example_miss)
  have 2: "generate_embedding ?co (query_text example_request) = Some (replicate 1024 0)"
    by (rule example_embedding_mock)
  have 3: "replicate 1024 (0::real) \<noteq> []" by simp
  have 4: "search_documents ?co (replicate 1024 0) 5 = Inr []"
    by (simp add: example_collaborators_def)
  from no_documents_response [OF 1 2 3 4]
  obtain s1 where
    run: "query_documentation id example_env ?co example_service example_request
            = (Inr \<lparr>answer = no_documents_answer, citations = [], query_id = uuid4 example_env,
                    timestamp = utcnow example_env @ ''Z'', metadata = None\<rparr>, s1)"
    and f: "failed_queries (the_metrics s1) = failed_queries (the_metrics example_service) + 1"
    and g: "successful_queries (the_metrics s1) = successful_queries (the_metrics example_service)"
    and c: "the_cache s1 = snd (cache_get id (time_get example_env) (the_cache example_service)
                                 (query example_request) (Given (selected_text example_request)))"
    and l: "calls s1 = calls example_service @ [SearchCall (replicate 1024 0) 5]"
    by blast
  have "failed_queries (the_metrics s1) = 1"
    using f by (simp add: example_service_def ResponseQualityMetrics_init_def)
  moreover have "successful_queries (the_metrics s1) = 0"
    using g by (simp add: example_service_def ResponseQualityMetrics_init_def)
  moreover have "cache (the_cache s1) = Map.empty"
    unfolding c example_miss by (simp add: SimpleCache_init_def)
  moreover have "calls s1 = [SearchCall (replicate 1024 0) 5]"
    using l by (simp add: example_service_def)
  moreover have "uuid4 example_env = ''id-1''"
    and "utcnow example_env @ ''Z'' = ''2025-12-15T10:30:00Z''"
    by (simp_all add: example_env_def)
  ultimately show ?thesis using run by auto
qed

lemma generate_embedding_fallback:
  "(case cohere_client co of None \<Rightarrow> True | Some f \<Rightarrow> isl (f t)) \<Longrightarrow>
   (case openai_client co of None \<Rightarrow> True | Some g \<Rightarrow> isl (g t)) \<Longrightarrow>
   generate_embedding co t = Some (replicate 1024 0)"
  by (auto simp: generate_embedding_def isl_def split: option.splits sum.splits)

text \<open>
  The check after the embedding: on a cache miss, when \<open>generate_embedding\<close> returns
  nothing (\<open>None\<close> or an empty vector), the request ends in the handler with the apology
  answer, no citations and the note of the exception; no call to the search or the
  generation is made, and the metrics count one more failed query.
\<close>

lemma embedding_nothing_is_fatal:
  "(fst (cache_get digest (time_get ev) (the_cache s) (query req)
           (Given (selected_text req))) = None
    \<and> (generate_embedding co (query_text req) = None
       \<or> generate_embedding co (query_text req) = Some []) \<longrightarrow>
      (\<exists>s1. query_documentation digest ev co s req
           = (Inr \<lparr>answer = error_answer, citations = [], query_id = uuid4_except ev,
                   timestamp = utcnow_except ev @ ''Z'',
                   metadata = Some [(''error'',
                                MErr (Exception ''Failed to generate query embedding''))]\<rparr>, s1)
         \<and> calls s1 = calls s
         \<and> failed_queries (the_metrics s1) = failed_queries (the_metrics s) + 1
         \<and> successful_queries (the_metrics s1) = successful_queries (the_metrics s)
         \<and> total_queries (the_metrics s1) = total_queries (the_metrics s) + 1))
   \<and> ((case cohere_client co of None \<Rightarrow> True | Some f \<Rightarrow> isl (f t))
      \<and> (case openai_client co of None \<Rightarrow> True | Some g \<Rightarrow> isl (g t)) \<longrightarrow>
        generate_embedding co t = Some (replicate 1024 0))"
proof (intro conjI impI)
  assume h: "fst (cache_get digest (time_get ev) (the_cache s) (query req)
           (Given (selected_text req))) = None
    \<and> (generate_embedding co (query_text req) = None
       \<or> generate_embedding co (query_text req) = Some [])"
  let ?c1 = "snd (cache_get digest (time_get ev) (the_cache s) (query req)
                    (Given (selected_text req)))"
  let ?e = "Exception ''Failed to generate query embedding''"
  let ?r = "\<lparr>answer = error_answer, citations = [], query_id = uuid4_except ev,
              timestamp = utcnow_except ev @ ''Z'', metadata = Some [(''error'', MErr ?e)]\<rparr>"
  let ?s0 = "s\<lparr>the_cache := ?c1\<rparr>"
  from log_query_end_failed [of "time_end_except ev" "the_metrics s" "time_start ev" "Some ?r"]
  obtain m1 where
    m1: "log_query_end (time_end_except ev) (the_metrics s) (time_start ev) False (Some ?r)
           = Inr m1"
      "failed_queries m1 = failed_queries (the_metrics s) + 1"
      "successful_queries m1 = successful_queries (the_metrics s)"
      "total_queries m1 = total_queries (the_metrics s) + 1"
    by blast
  have cm: "cache_miss digest ev co ?s0 req (time_start ev) = (Inl ?e, ?s0)"
    using h by (auto simp: cache_miss_def Let_def)
  have tr: "query_documentation_try digest ev co s req (time_start ev) = (Inl ?e, ?s0)"
    using h cm by (auto simp: query_documentation_try_def split: prod.splits option.splits)
  have run: "query_documentation digest ev co s req = (Inr ?r, ?s0\<lparr>the_metrics := m1\<rparr>)"
    using tr m1(1) by (simp add: query_documentation_def error_response_init)
  show "\<exists>s1. query_documentation digest ev co s req = (Inr ?r, s1)
         \<and> calls s1 = calls s
         \<and> failed_queries (the_metrics s1) = failed_queries (the_metrics s) + 1
         \<and> successful_queries (the_metrics s1) = successful_queries (the_metrics s)
         \<and> total_queries (the_metrics s1) = total_queries (the_metrics s) + 1"
    unfolding run using m1(2-4) by simp
next
  assume "(case cohere_client co of None \<Rightarrow> True | Some f \<Rightarrow> isl (f t))
      \<and> (case openai_client co of None \<Rightarrow> True | Some g \<Rightarrow> isl (g t))"
  then show "generate_embedding co t = Some (replicate 1024 0)"
    by (simp add: generate_embedding_fallback)
qed

lemma embedding_nothing_is_fatal_example:
  "generate_embedding (example_collaborators (Some (\<lambda>t. Inr None)) [] (Inr example_agent_response))
      (query_text example_request) = None
   \<and> (\<exists>s1. query_documentation id example_env
             (example_collaborators (Some (\<lambda>t. Inr None)) [] (Inr example_agent_response))
             example_service example_request
           = (Inr \<lparr>answer = error_answer, citations = [], query_id = ''id-2'',
                   timestamp = ''2025-12-15T10:30:01Z'',
                   metadata = Some [(''error'',
                                MErr (Exception ''Failed to generate query embedding''))]\<rparr>, s1)
         \<and> calls s1 = [] \<and> failed_queries (the_metrics s1) = 1)"
proof -
  let ?co = "example_collaborators (Some (\<lambda>t. Inr None)) [] (Inr example_agent_response)"
  have 1: "fst (cache_get id (time_get example_env) (the_cache example_service)
             (query example_request) (Given (selected_text example_request))) = None"
    by (simp add: example_miss)
  have 2: "generate_embedding ?co (query_text example_request) = None"
    by (simp add: generate_embedding_def example_collaborators_def)
  from embedding_nothing_is_fatal [where digest = id and ev = example_env and co = ?co
      and s = example_service and req = example_request] 1 2
  obtain s1 where
    run: "query_documentation id example_env ?co example_service example_request
           = (Inr \<lparr>answer = error_answer, citations = [], query_id = uuid4_except example_env,
                   timestamp = utcnow_except example_env @ ''Z'',
                   metadata = Some [(''error'',
                                MErr (Exception ''Failed to generate query embedding''))]\<rparr>, s1)"
    and l: "calls s1 = calls example_service"
    and f: "failed_queries (the_metrics s1) = failed_queries (the_metrics example_service) + 1"
    by blast
  have "calls s1 = []" using l by (simp add: example_service_def)
  moreover have "failed_queries (the_metrics s1) = 1"
    using f by (simp add: example_service_def ResponseQualityMetrics_init_def)
  moreover have "uuid4_except example_env = ''id-2''"
    and "utcnow_except example_env @ ''Z'' = ''2025-12-15T10:30:01Z''"
    by (simp_all add: example_env_def)
  ultimately show ?thesis using run 2 by auto
qed

text \<open>
  With every configured embedding client raising, \<open>generate_embedding\<close> returns the mock
  vector, and on a cache miss the search is then called with it, whatever the search and
  the generation do afterwards.
\<close>

lemma no_documents_calls:
  "calls (snd (no_documents ev s st)) = calls s"
  by (auto simp: no_documents_def split: sum.splits)

lemma with_documents_calls:
  "calls (snd (with_documents digest ev co s req st docs))
     = calls s @ [GenerateCall (query req) docs (selected_text req)]"
  by (auto simp: with_documents_def Let_def split: sum.splits option.splits)

lemma query_documentation_calls:
  "calls (snd (query_documentation digest ev co s req))
     = calls (snd (query_documentation_try digest ev co s req (time_start ev)))"
  by (auto simp: query_documentation_def Let_def error_response_init
        split: prod.splits sum.splits)

lemma mock_embedding_reaches_search:
  assumes miss: "fst (cache_get digest (time_get ev) (the_cache s) (query req)
                        (Given (selected_text req))) = None"
    and c: "case cohere_client co of None \<Rightarrow> True | Some f \<Rightarrow> isl (f (query_text req))"
    and p: "case openai_client co of None \<Rightarrow> True | Some g \<Rightarrow> isl (g (query_text req))"
  shows "SearchCall (replicate 1024 0) 5
           \<in> set (calls (snd (query_documentation digest ev co s req)))"
proof -
  let ?c1 = "snd (cache_get digest (time_get ev) (the_cache s) (query req)
                    (Given (selected_text req)))"
  have e: "generate_embedding co (query_text req) = Some (replicate 1024 0)"
    using c p by (rule generate_embedding_fallback)
  have tr: "query_documentation_try digest ev co s req (time_start ev)
              = cache_miss digest ev co (s\<lparr>the_cache := ?c1\<rparr>) req (time_start ev)"
    using miss by (auto simp: query_documentation_try_def split: prod.splits option.splits)
  have "SearchCall (replicate 1024 0) 5
          \<in> set (calls (snd (cache_miss digest ev co (s\<lparr>the_cache := ?c1\<rparr>) req
                                 (time_start ev))))"
    by (simp add: cache_miss_def e Let_def get_default_def no_documents_calls
          with_documents_calls split: sum.splits)
  then show ?thesis
    by (simp add: query_documentation_calls tr)
qed

text \<open>
  C2 fails on the code. Here the only embedding client raises. \<open>generate_embedding\<close>
  catches the exception and returns the mock vector of 1024 zeros, so the check for a
  missing embedding passes: the request goes on to the search, then to the generation, and
  returns the generated answer with its citation, counted as a successful query and not as
  a failed one.
\<close>

theorem failing_embedding_client_proceeds:
  "generate_embedding
       (example_collaborators (Some (\<lambda>t. Inl (Exception ''cohere is down'')))
          [example_doc ''doc1'' (Some ''/docs/ros2'')] (Inr example_agent_response))
       (query_text example_request) = Some (replicate 1024 0)
   \<and> fst (query_documentation id example_env
         (example_collaborators (Some (\<lambda>t. Inl (Exception ''cohere is down'')))
            [example_doc ''doc1'' (Some ''/docs/ros2'')] (Inr example_agent_response))
         example_service example_request)
     = Inr \<lparr>answer = ''ROS 2 is...'',
            citations = [\<lparr>document_id = ''doc1'', title = ''ROS 2'', url = ''/docs/ros2'',
               text_snippet = ''ROS 2 is a framework for robots'', relevance_score = 9 / 10\<rparr>],
            query_id = ''id-1'', timestamp = ''2025-12-15T10:30:00Z'', metadata = Some []\<rparr>
   \<and> calls (snd (query_documentation id example_env
         (example_collaborators (Some (\<lambda>t. Inl (Exception ''cohere is down'')))
            [example_doc ''doc1'' (Some ''/docs/ros2'')] (Inr example_agent_response))
         example_service example_request))
     = [SearchCall (replicate 1024 0) 5,
        GenerateCall ''What is ROS 2?'' [example_doc ''doc1'' (Some ''/docs/ros2'')] (Some '''')]
   \<and> successful_queries (the_metrics (snd (query_documentation id example_env
         (example_collaborators (Some (\<lambda>t. Inl (Exception ''cohere is down'')))
            [example_doc ''doc1'' (Some ''/docs/ros2'')] (Inr example_agent_response))
         example_service example_request))) = 1
   \<and> failed_queries (the_metrics (snd (query_documentation id example_env
         (example_collaborators (Some (\<lambda>t. Inl (Exception ''cohere is down'')))
            [example_doc ''doc1'' (Some ''/docs/ros2'')] (Inr example_agent_response))
         example_service example_request))) = 0"
  by (simp add: query_documentation_def query_documentation_try_def example_miss
        cache_miss_def example_query_text example_embedding_raise with_documents_def
        example_doc_citation_ok enhance_citation_relevance_def validate_citation_links_def
        startswith_def example_response_init strip_example log_query_end_def truediv_def
        Let_def get_default_def example_collaborators_def example_agent_response_def
        example_service_def example_env_def example_request_def
        ResponseQualityMetrics_init_def SimpleCache_init_def cache_get_def generate_key_def
        cache_input_def generate_embedding_def)

text \<open>
  Every citation that is built has a URL matching the pattern, so the link validation that
  follows never drops one: its second branch is not reached from the orchestrator.
\<close>

lemma take_prefix:
  assumes "take (length (p @ q)) u = p @ q"
  shows "take (length p) u = p"
proof -
  have "take (length p) (take (length (p @ q)) u) = take (length p) (p @ q)"
    by (simp only: assms)
  then show ?thesis by (simp add: min_def)
qed

lemma startswith_append: "startswith u (p @ q) \<Longrightarrow> startswith u p"
  unfolding startswith_def by (rule take_prefix)

lemma startswith_http: "startswith u ''http://'' \<Longrightarrow> startswith u ''http''"
  using startswith_append [of u "''http''" "''://''"] by simp

lemma startswith_https: "startswith u ''https://'' \<Longrightarrow> startswith u ''http''"
  using startswith_append [of u "''http''" "''s://''"] by simp

lemma startswith_nonempty: "startswith u p \<Longrightarrow> p \<noteq> [] \<Longrightarrow> u \<noteq> []"
  by (auto simp: startswith_def)

lemma url_pattern_prefix:
  "url_pattern u \<Longrightarrow> u \<noteq> [] \<and> (startswith u ''http'' \<or> startswith u ''/'')"
  unfolding url_pattern_def
  using startswith_http [of u] startswith_https [of u]
    startswith_nonempty [of u "''http://''"] startswith_nonempty [of u "''https://''"]
    startswith_nonempty [of u "''/''"]
  by blast

lemma doc_citation_url:
  "doc_citation d = Inr c \<Longrightarrow> url_pattern (url c)"
  by (auto simp: doc_citation_def Citation_init_def Citation_valid_def Let_def split: if_splits)

lemma raw_citations_urls:
  "raw_citations ds = Inr cs \<Longrightarrow> list_all (\<lambda>c. url_pattern (url c)) cs"
  by (induction ds arbitrary: cs) (auto split: sum.splits dest: doc_citation_url)

lemma validate_citation_links_never_drops:
  assumes "raw_citations ds = Inr cs"
  shows "validate_citation_links cs = cs"
proof -
  from assms have "list_all (\<lambda>c. url_pattern (url c)) cs" by (rule raw_citations_urls)
  then have "\<forall>c\<in>set cs. url c \<noteq> [] \<and> (startswith (url c) ''http'' \<or> startswith (url c) ''/'')"
    using url_pattern_prefix by (simp add: list_all_iff)
  then show ?thesis
    unfolding validate_citation_links_def by (simp add: filter_id_conv)
qed

text \<open>
  C3 fails on the code. A retrieved document without a URL gets the default \<open>""\<close>, which
  the pattern of \<open>Citation.url\<close> rejects: building the citation raises
  \<open>ValidationError\<close> inside the \<open>try\<close> block, and the request ends in the handler with
  the apology answer, counted as failed.
\<close>

theorem missing_url_fails_request:
  "doc_citation (example_doc ''doc1'' None) = Inl ValidationError
   \<and> fst (query_documentation id example_env
           (example_collaborators None [example_doc ''doc1'' None] (Inr example_agent_response))
           example_service example_request)
       = Inr \<lparr>answer = error_answer, citations = [], query_id = ''id-2'',
              timestamp = ''2025-12-15T10:30:01Z'',
              metadata = Some [(''error'', MErr ValidationError)]\<rparr>
   \<and> failed_queries (the_metrics (snd (query_documentation id example_env
           (example_collaborators None [example_doc ''doc1'' None] (Inr example_agent_response))
           example_service example_request))) = 1"
  by (simp add: query_documentation_def query_documentation_try_def example_miss
        cache_miss_def example_query_text with_documents_def
        example_doc_citation_missing_url error_response_init log_query_end_def truediv_def
        Let_def get_default_def example_collaborators_def example_agent_response_def
        example_service_def example_env_def example_request_def
        ResponseQualityMetrics_init_def SimpleCache_init_def cache_get_def generate_key_def
        cache_input_def generate_embedding_def)

text \<open>
  C7 fails on the code. When the search returns three documents whose URLs are
  \<open>ftp://bad\<close>, \<open>/docs/x\<close> and \<open>https://x\<close>, building the first citation raises
  \<open>ValidationError\<close> and the request ends in the handler: the response has no citation
  at all, so the documents with the two good URLs do not appear in it.
\<close>

theorem mixed_urls_fail_request:
  "fst (query_documentation id example_env
           (example_collaborators None
              [example_doc ''doc1'' (Some ''ftp://bad''), example_doc ''doc2'' (Some ''/docs/x''),
               example_doc ''doc3'' (Some ''https://x'')]
              (Inr example_agent_response))
           example_service example_request)
       = Inr \<lparr>answer = error_answer, citations = [], query_id = ''id-2'',
              timestamp = ''2025-12-15T10:30:01Z'',
              metadata = Some [(''error'', MErr ValidationError)]\<rparr>"
  by (simp add: query_documentation_def query_documentation_try_def example_miss
        cache_miss_def example_query_text with_documents_def
        example_doc_citation_ftp error_response_init log_query_end_def truediv_def
        Let_def get_default_def example_collaborators_def example_agent_response_def
        example_service_def example_env_def example_request_def
        ResponseQualityMetrics_init_def SimpleCache_init_def cache_get_def generate_key_def
        cache_input_def generate_embedding_def)

end
